theory Spec2Isabelle
  imports Main
begin

section \<open>Python values and exceptions\<close>

text \<open>
  \<^verbatim>\<open>RemixContext = namedtuple("RemixContext", ["address", "port"])\<close>

  The named tuple is a record of its two fields; \<open>RemixContext\<close> is its constructor.
\<close>

record remix_context =
  address :: string
  port :: int

definition RemixContext :: "string \<Rightarrow> int \<Rightarrow> remix_context" where
  "RemixContext a p = \<lparr>address = a, port = p\<rparr>"

text \<open>
  The values that flow between nodes. \<open>PAnyType s\<close> is an instance of the class
  \<^verbatim>\<open>AnyType(str)\<close> whose string content is \<open>s\<close>; \<open>PStr s\<close> is a plain \<^verbatim>\<open>str\<close>.
\<close>

datatype pyval =
    PNone
  | PBool bool
  | PInt int
  | PStr string
  | PAnyType string
  | PList "pyval list"
  | PTuple "pyval list"
  | PRemixContext remix_context

text \<open>The exceptions the modelled code can raise; \<open>Raised\<close> is any other exception of a node.\<close>

datatype py_error =
    KeyError string
  | IndexError
  | AttributeError string
  | TypeError
  | Raised string

section \<open>Leaf utility nodes\<close>

subsection \<open>StartContext and EndContext\<close>

text \<open>
  \<^verbatim>\<open>def execute(self, address, port): return (RemixContext(address, port),)\<close>

  A returned tuple is the list of its elements.
\<close>

definition StartContext_execute :: "string \<Rightarrow> int \<Rightarrow> pyval list" where
  "StartContext_execute address' port' = [PRemixContext (RemixContext address' port')]"

text \<open>
  \<^verbatim>\<open>def execute(self, context): return ()\<close>

  The call is modelled with its argument passed through: the first component is the
  returned tuple, the second is the context object after the call. The body never
  touches the context.
\<close>

definition EndContext_execute :: "remix_context \<Rightarrow> pyval list \<times> remix_context" where
  "EndContext_execute context = ([], context)"

subsection \<open>StringConcatenate\<close>

text \<open>
  \<^verbatim>\<open>def execute(self, string1, string2, separator="_"):
      return (string1 + separator + string2,)\<close>

  The optional parameter is an \<open>option\<close>: \<open>None\<close> is the call that omits it.
\<close>

definition StringConcatenate_execute :: "string \<Rightarrow> string \<Rightarrow> string option \<Rightarrow> pyval list" where
  "StringConcatenate_execute string1 string2 separator =
     (let sep = (case separator of None \<Rightarrow> ''_'' | Some s \<Rightarrow> s)
      in [PStr (string1 @ sep @ string2)])"

subsection \<open>AnyType\<close>

text \<open>
  \<^verbatim>\<open># Hack: string type that is always equal in not equal comparisons
  class AnyType(str):
      def __ne__(self, __value: object) -> bool:
          return False

  _any = AnyType("*")\<close>

  \<open>AnyType\<close> overrides \<^verbatim>\<open>__ne__\<close> only; \<^verbatim>\<open>__eq__\<close> is the one inherited from
  \<^verbatim>\<open>str\<close>, which answers for string operands (by content) and is NotImplemented
  (\<open>None\<close>) for any other operand.
\<close>

fun str_content :: "pyval \<Rightarrow> string option" where
  "str_content (PStr s) = Some s"
| "str_content (PAnyType s) = Some s"
| "str_content _ = None"

definition AnyType_ne :: "string \<Rightarrow> pyval \<Rightarrow> bool" where
  "AnyType_ne self other = False"

definition str_eq :: "string \<Rightarrow> pyval \<Rightarrow> bool option" where
  "str_eq self other = (case str_content other of None \<Rightarrow> None | Some t \<Rightarrow> Some (self = t))"

definition any_content :: string where
  "any_content = ''*''"

text \<open>
  The comparison \<^verbatim>\<open>_any != v\<close> calls \<open>AnyType.__ne__\<close>. The comparison
  \<^verbatim>\<open>_any == v\<close> calls the inherited \<^verbatim>\<open>str.__eq__\<close>; when that is NotImplemented the
  values of \<open>pyval\<close> on the other side do not answer for a string either, and Python
  falls back to identity, which is false for two different objects.
\<close>

definition any_ne :: "pyval \<Rightarrow> bool" where
  "any_ne v = AnyType_ne any_content v"

definition any_eq :: "pyval \<Rightarrow> bool" where
  "any_eq v = (case str_eq any_content v of None \<Rightarrow> False | Some b \<Rightarrow> b)"

subsection \<open>Switch\<close>

text \<open>
  \<^verbatim>\<open>def execute(self, if_true: _any, if_false: _any, switcher: list[bool]):
      return (if_true if switcher[0] else if_false,)\<close>

  \<^verbatim>\<open>switcher[0]\<close> raises IndexError on the empty list.
\<close>

definition Switch_execute :: "pyval \<Rightarrow> pyval \<Rightarrow> bool list \<Rightarrow> py_error + pyval list" where
  "Switch_execute if_true if_false switcher =
     (case switcher of
        [] \<Rightarrow> Inl IndexError
      | b # _ \<Rightarrow> Inr [if b then if_true else if_false])"

subsection \<open>InvertBool\<close>

text \<open>\<^verbatim>\<open>def execute(self, value: bool): return (not value,)\<close>\<close>

definition InvertBool_execute :: "bool \<Rightarrow> pyval list" where
  "InvertBool_execute v = [PBool (\<not> v)]"

subsection \<open>StrToList\<close>

text \<open>\<^verbatim>\<open>def execute(self, value: str): return ([value],)\<close>\<close>

definition StrToList_execute :: "string \<Rightarrow> pyval list" where
  "StrToList_execute v = [PList [PStr v]]"

subsection \<open>StringConstant\<close>

text \<open>\<^verbatim>\<open>def get_string(self, string): return (string,)\<close>\<close>

definition StringConstant_get_string :: "pyval \<Rightarrow> pyval list" where
  "StringConstant_get_string string' = [string']"

section \<open>Context propagation decorators\<close>

subsection \<open>Instances, keyword arguments and methods\<close>

text \<open>
  A node instance is its attribute dictionary. The keyword arguments of a call are the
  dictionary \<^verbatim>\<open>kwargs\<close>, kept as the list of its items in order; a dictionary has each
  key once. A method takes the instance, the positional arguments and the keyword
  arguments, and gives the returned object or the raised exception together with the
  instance as the call leaves it. A node's method returns a tuple by the host's contract,
  but nothing in the language makes it do so.
\<close>

type_synonym node_instance = "string \<rightharpoonup> pyval"

type_synonym kwargs = "(string \<times> pyval) list"

type_synonym node_method =
  "node_instance \<Rightarrow> pyval list \<Rightarrow> kwargs \<Rightarrow> (py_error + pyval) \<times> node_instance"

text \<open>\<^verbatim>\<open>d.pop(key)\<close>: the value and the dictionary without the key, KeyError when absent.\<close>

definition dict_pop :: "kwargs \<Rightarrow> string \<Rightarrow> py_error + (pyval \<times> kwargs)" where
  "dict_pop d key =
     (case map_of d key of
        None \<Rightarrow> Inl (KeyError key)
      | Some v \<Rightarrow> Inr (v, filter (\<lambda>(k, _). k \<noteq> key) d))"

text \<open>\<^verbatim>\<open>instance.name\<close>: AttributeError when the attribute is not set.\<close>

definition getattr_instance :: "node_instance \<Rightarrow> string \<Rightarrow> py_error + pyval" where
  "getattr_instance inst name =
     (case inst name of None \<Rightarrow> Inl (AttributeError name) | Some v \<Rightarrow> Inr v)"

subsection \<open>ContextExecutionFuncWrapper\<close>

text \<open>
  \<^verbatim>\<open>def __get__(self, instance, owner):
      def wrapper(*args, **kwargs):
          # store on instance in case node needs access
          instance.context: RemixContext = kwargs.pop("context")
          instance.enable_this_node: bool = kwargs.pop("enable_this_node")
          return (instance.context,) + self.func(instance, *args, **kwargs)
      return wrapper\<close>

  The first argument is \<^verbatim>\<open>self.func\<close>. Each statement is one \<open>case\<close>: a failing
  \<^verbatim>\<open>pop\<close> leaves the function at once, with the instance as it is by then. The left
  operand \<^verbatim>\<open>(instance.context,)\<close> is read before the original method runs.

  The \<^verbatim>\<open>+\<close> is the concatenation of tuples: its right operand must be a tuple, or an
  instance of a subclass of \<^verbatim>\<open>tuple\<close> as the named tuple \<open>RemixContext\<close> is, and the
  result is a plain tuple; for any other right operand it raises TypeError.
\<close>

fun tuple_items :: "pyval \<Rightarrow> pyval list option" where
  "tuple_items (PTuple xs) = Some xs"
| "tuple_items (PRemixContext c) = Some [PStr (address c), PInt (port c)]"
| "tuple_items _ = None"

definition ContextExecutionFuncWrapper_wrapper ::
  "node_method \<Rightarrow> node_instance \<Rightarrow> pyval list \<Rightarrow> kwargs \<Rightarrow> (py_error + pyval) \<times> node_instance" where
  "ContextExecutionFuncWrapper_wrapper func inst args kwargs =
     (case dict_pop kwargs ''context'' of
        Inl e \<Rightarrow> (Inl e, inst)
      | Inr (context, kwargs1) \<Rightarrow>
          (let inst1 = inst(''context'' \<mapsto> context) in
           case dict_pop kwargs1 ''enable_this_node'' of
             Inl e \<Rightarrow> (Inl e, inst1)
           | Inr (enable, kwargs2) \<Rightarrow>
               (let inst2 = inst1(''enable_this_node'' \<mapsto> enable) in
                case getattr_instance inst2 ''context'' of
                  Inl e \<Rightarrow> (Inl e, inst2)
                | Inr first \<Rightarrow>
                    (case func inst2 args kwargs2 of
                       (Inl e, inst3) \<Rightarrow> (Inl e, inst3)
                     | (Inr returned, inst3) \<Rightarrow>
                         (case tuple_items returned of
                            None \<Rightarrow> (Inl TypeError, inst3)
                          | Some res \<Rightarrow> (Inr (PTuple (first # res)), inst3))))))"

text \<open>
  What the original method is called with: the instance with both values stored, and
  the keyword arguments without the two keys.
\<close>

definition stored :: "node_instance \<Rightarrow> pyval \<Rightarrow> pyval \<Rightarrow> node_instance" where
  "stored inst context enable = inst(''context'' \<mapsto> context, ''enable_this_node'' \<mapsto> enable)"

definition remaining :: "kwargs \<Rightarrow> kwargs" where
  "remaining kwargs =
     filter (\<lambda>(k, _). k \<noteq> ''enable_this_node'') (filter (\<lambda>(k, _). k \<noteq> ''context'') kwargs)"

subsection \<open>Node methods as the wrapper calls them\<close>

text \<open>
  \<open>StringConstant.get_string(instance, *args, **kwargs)\<close>: the one parameter
  \<^verbatim>\<open>string\<close> is bound from the single positional or the single keyword argument; any
  other shape of call is Python's TypeError. The body does not touch the instance.
\<close>

definition StringConstant_method :: node_method where
  "StringConstant_method inst args kwargs =
     (case (args, kwargs) of
        ([v], []) \<Rightarrow> (Inr (PTuple (StringConstant_get_string v)), inst)
      | ([], [(k, v)]) \<Rightarrow>
          (if k = ''string'' then (Inr (PTuple (StringConstant_get_string v)), inst)
           else (Inl TypeError, inst))
      | _ \<Rightarrow> (Inl TypeError, inst))"

text \<open>
  A node that reads the flag, as the decorator's docstring invites
  (\<^verbatim>\<open>Access it using self.context within the execution func\<close>):

  \<^verbatim>\<open>def execute(self, *args, **kwargs):
      return (self.enable_this_node,)\<close>
\<close>

definition ReportEnabled_execute :: node_method where
  "ReportEnabled_execute inst args kwargs =
     (case getattr_instance inst ''enable_this_node'' of
        Inl e \<Rightarrow> (Inl e, inst)
      | Inr v \<Rightarrow> (Inr (PTuple [v]), inst))"

text \<open>
  A node whose method has no \<^verbatim>\<open>return\<close> statement, and so returns \<^verbatim>\<open>None\<close>:

  \<^verbatim>\<open>def execute(self, *args, **kwargs):
      pass\<close>
\<close>

definition ReturnsNothing_execute :: node_method where
  "ReturnsNothing_execute inst args kwargs = (Inr PNone, inst)"

subsection \<open>Input schemas\<close>

text \<open>
  A declared input is a type tag with its options; a schema maps a section
  (\<^verbatim>\<open>"required"\<close>, \<^verbatim>\<open>"optional"\<close>) to the inputs declared there by name.
  \<open>CONTEXT_TYPE\<close> is imported from the module \<^verbatim>\<open>constant\<close>; it is a parameter here.
\<close>

type_synonym input_spec = "pyval \<times> (string \<times> pyval) list"

type_synonym input_schema = "string \<rightharpoonup> (string \<rightharpoonup> input_spec)"

definition get_context_inputs :: "string \<Rightarrow> input_schema" where
  "get_context_inputs CONTEXT_TYPE =
     [''required'' \<mapsto> [''context'' \<mapsto> (PStr CONTEXT_TYPE, [(''forceInput'', PBool True)])]]"

definition get_enabled_inputs :: input_schema where
  "get_enabled_inputs =
     [''required'' \<mapsto> [''enable_this_node'' \<mapsto> (PStr ''BOOLEAN'', [(''default'', PBool True)])]]"

text \<open>
  Modelled from the spec: \<^verbatim>\<open>merge_dict\<close> of the module \<^verbatim>\<open>utils\<close>, which is not among
  the sources. The spec has the decorators "merge extra input-schema entries into a
  node's declared inputs": a section of either schema is a section of the result, and a
  section of both holds the entries of both (the second argument's entry where both
  declare a name).
\<close>

definition merge_dict :: "input_schema \<Rightarrow> input_schema \<Rightarrow> input_schema" where
  "merge_dict d1 d2 =
     (\<lambda>section.
        case d1 section of
          None \<Rightarrow> d2 section
        | Some entries1 \<Rightarrow>
            (case d2 section of
               None \<Rightarrow> Some entries1
             | Some entries2 \<Rightarrow> Some (entries1 ++ entries2)))"

text \<open>
  \<^verbatim>\<open>def wrap_input_types_with(func, input_fn):
      def wrapper(*args, **kwargs):
          return merge_dict(input_fn(), func())
      return wrapper\<close>

  Both functions take no argument and return a schema; each is the schema it returns.
\<close>

definition wrap_input_types_with :: "input_schema \<Rightarrow> input_schema \<Rightarrow> input_schema" where
  "wrap_input_types_with func input_fn = merge_dict input_fn func"

subsection \<open>Class decorators\<close>

text \<open>
  The attributes of a node class that the decorators read or write. \<open>None\<close> is an
  attribute the class does not have; \<open>methods\<close> are its callables by name.
\<close>

record node_class =
  INPUT_TYPES :: "input_schema option"
  RETURN_TYPES :: "pyval list option"
  RETURN_NAMES :: "string list option"
  OUTPUT_IS_LIST :: "bool list option"
  FUNCTION :: "string option"
  methods :: "string \<rightharpoonup> node_method"

text \<open>\<^verbatim>\<open>getattr(cls, name, ())\<close> on a tuple attribute.\<close>

definition getattr_default :: "'a list option \<Rightarrow> 'a list" where
  "getattr_default attr = (case attr of None \<Rightarrow> [] | Some xs \<Rightarrow> xs)"

text \<open>
  \<^verbatim>\<open>def add_context_outputs(cls):
      cls.RETURN_TYPES = (CONTEXT_TYPE,) + getattr(cls, "RETURN_TYPES", ())
      cls.RETURN_NAMES = ("context",) + getattr(cls, "RETURN_NAMES", ())
      if hasattr(cls, "OUTPUT_IS_LIST"):
          cls.OUTPUT_IS_LIST = (False,) + getattr(cls, "OUTPUT_IS_LIST", ())
      return cls\<close>
\<close>

definition add_context_outputs :: "string \<Rightarrow> node_class \<Rightarrow> node_class" where
  "add_context_outputs CONTEXT_TYPE cls =
     (let cls1 = cls\<lparr>RETURN_TYPES := Some (PStr CONTEXT_TYPE # getattr_default (RETURN_TYPES cls))\<rparr>;
          cls2 = cls1\<lparr>RETURN_NAMES := Some (''context'' # getattr_default (RETURN_NAMES cls1))\<rparr>
      in case OUTPUT_IS_LIST cls2 of
           None \<Rightarrow> cls2
         | Some _ \<Rightarrow> cls2\<lparr>OUTPUT_IS_LIST := Some (False # getattr_default (OUTPUT_IS_LIST cls2))\<rparr>)"

text \<open>
  \<^verbatim>\<open>def add_context_input_enabled_and_output(cls):
      add_context_outputs(cls)
      setattr(cls, "INPUT_TYPES", wrap_input_types_with(cls.INPUT_TYPES, get_context_inputs))
      setattr(cls, "INPUT_TYPES", wrap_input_types_with(cls.INPUT_TYPES, get_enabled_inputs))
      function_name = getattr(cls, "FUNCTION")
      func = getattr(cls, function_name)
      wrapped_func = ContextExecutionFuncWrapper(func)
      setattr(cls, function_name, wrapped_func)
      return cls\<close>

  Reading an attribute the class does not have raises AttributeError, and the decorator
  then returns no class.
\<close>

definition add_context_input_enabled_and_output :: "string \<Rightarrow> node_class \<Rightarrow> py_error + node_class" where
  "add_context_input_enabled_and_output CONTEXT_TYPE cls =
     (let cls1 = add_context_outputs CONTEXT_TYPE cls in
      case INPUT_TYPES cls1 of
        None \<Rightarrow> Inl (AttributeError ''INPUT_TYPES'')
      | Some input_types \<Rightarrow>
          (let cls2 = cls1\<lparr>INPUT_TYPES :=
                        Some (wrap_input_types_with input_types (get_context_inputs CONTEXT_TYPE))\<rparr>
           in case INPUT_TYPES cls2 of
                None \<Rightarrow> Inl (AttributeError ''INPUT_TYPES'')
              | Some input_types2 \<Rightarrow>
                  (let cls3 = cls2\<lparr>INPUT_TYPES :=
                                Some (wrap_input_types_with input_types2 get_enabled_inputs)\<rparr>
                   in case FUNCTION cls3 of
                        None \<Rightarrow> Inl (AttributeError ''FUNCTION'')
                      | Some function_name \<Rightarrow>
                          (case methods cls3 function_name of
                             None \<Rightarrow> Inl (AttributeError function_name)
                           | Some func \<Rightarrow>
                               Inr (cls3\<lparr>methods := (methods cls3)
                                      (function_name \<mapsto> ContextExecutionFuncWrapper_wrapper func)\<rparr>)))))"

text \<open>
  The class \<open>StringConstant\<close> of the module, as the decorators see it:
  \<^verbatim>\<open>RETURN_TYPES = ("STRING",)\<close>, \<^verbatim>\<open>FUNCTION = "get_string"\<close>, no
  \<^verbatim>\<open>RETURN_NAMES\<close> and no \<^verbatim>\<open>OUTPUT_IS_LIST\<close>.
\<close>

definition StringConstant_class :: node_class where
  "StringConstant_class =
     \<lparr>INPUT_TYPES = Some [''required'' \<mapsto>
        [''string'' \<mapsto> (PStr ''STRING'', [(''default'', PStr []), (''multiline'', PBool True)])]],
      RETURN_TYPES = Some [PStr ''STRING''],
      RETURN_NAMES = None,
      OUTPUT_IS_LIST = None,
      FUNCTION = Some ''get_string'',
      methods = [''get_string'' \<mapsto> StringConstant_method]\<rparr>"

text \<open>A node instance on which no attribute has been set yet.\<close>

definition new_instance :: node_instance where
  "new_instance = Map.empty"

section \<open>Properties of the leaf nodes\<close>

text \<open>
  C3: for all values \<open>x\<close> and \<open>y\<close>, of whatever kinds, \<open>Switch.execute\<close> with a selector
  batch whose first element is true returns \<open>x\<close>, and with one whose first element is
  false returns \<open>y\<close>.
\<close>

theorem Switch_execute_selects:
  "Switch_execute x y (True # rest) = Inr [x] \<and> Switch_execute x y (False # rest) = Inr [y]"
  by (simp add: Switch_execute_def)

text \<open>
  C10: \<open>Switch.execute\<close> reads the first element of the selector batch only: on a
  non-empty batch it returns, and returns what it returns on the first element alone; on
  the empty batch it raises IndexError.
\<close>

theorem Switch_execute_first_only:
  "Switch_execute x y (b # rest) = Switch_execute x y [b]
   \<and> (\<exists>r. Switch_execute x y (b # rest) = Inr r)
   \<and> Switch_execute x y [] = Inl IndexError"
  by (simp add: Switch_execute_def)

text \<open>
  C5: \<open>StringConcatenate.execute(a, b, s)\<close> returns the one-element tuple holding
  \<open>a + s + b\<close>, and the omitted separator is \<open>"_"\<close>.
\<close>

theorem StringConcatenate_execute_concat:
  "StringConcatenate_execute a b (Some s) = [PStr (a @ s @ b)]
   \<and> StringConcatenate_execute a b None = [PStr (a @ ''_'' @ b)]"
  by (simp add: StringConcatenate_execute_def)

text \<open>
  C6: \<open>InvertBool.execute\<close> maps true to false and false to true, and feeding its
  output back into it gives the first input again.
\<close>

theorem InvertBool_execute_involution:
  "InvertBool_execute True = [PBool False]
   \<and> InvertBool_execute False = [PBool True]
   \<and> (\<exists>y. InvertBool_execute x = [PBool y] \<and> InvertBool_execute y = [PBool x])"
  by (simp add: InvertBool_execute_def)

text \<open>
  C7: \<open>StartContext.execute\<close> on an address and a port produces the context whose
  fields are that address and that port; \<open>EndContext.execute\<close> on any context returns
  the empty tuple and leaves the context as it was.
\<close>

theorem StartContext_EndContext_execute:
  "StartContext_execute a p = [PRemixContext (RemixContext a p)]
   \<and> (address (RemixContext a p), port (RemixContext a p)) = (a, p)
   \<and> EndContext_execute c = ([], c)"
  by (simp add: StartContext_execute_def RemixContext_def EndContext_execute_def)

text \<open>
  C8: \<open>StrToList.execute(s)\<close> returns a tuple whose one element is the one-element list
  holding \<open>s\<close>.
\<close>

theorem StrToList_execute_singleton:
  "StrToList_execute s = [PList [PStr s]]"
  by (simp add: StrToList_execute_def)

section \<open>The match-all type\<close>

text \<open>
  C4, as stated, fails: the equality comparison of the match-all value with the type
  name \<open>"IMAGE"\<close> is the inherited string comparison of \<open>"*"\<close> with \<open>"IMAGE"\<close>, and
  reports unequal.
\<close>

theorem any_eq_counterexample:
  "\<not> any_eq (PStr ''IMAGE'')"
  by (simp add: any_eq_def str_eq_def any_content_def)

text \<open>
  C4, amended: the inequality comparison of the match-all value with any value returns
  false; its equality comparison is the one of strings, true exactly for the strings
  whose content is \<open>"*"\<close>.
\<close>

theorem any_ne_always_False:
  "\<not> any_ne v \<and> any_eq v = (str_content v = Some ''*'')"
  by (cases "str_content v") (auto simp: any_ne_def AnyType_ne_def any_eq_def str_eq_def any_content_def)

section \<open>Properties of the context propagation decorators\<close>

lemma map_of_filter_other:
  "k \<noteq> key \<Longrightarrow> map_of (filter (\<lambda>(k', _). k' \<noteq> key) d) k = map_of d k"
  by (induction d) auto

lemma wrapper_both_present:
  assumes "map_of kwargs ''context'' = Some C"
      and "map_of kwargs ''enable_this_node'' = Some flag"
  shows "ContextExecutionFuncWrapper_wrapper func inst args kwargs =
           (case func (stored inst C flag) args (remaining kwargs) of
              (Inl e, inst') \<Rightarrow> (Inl e, inst')
            | (Inr returned, inst') \<Rightarrow>
                (case tuple_items returned of
                   None \<Rightarrow> (Inl TypeError, inst')
                 | Some res \<Rightarrow> (Inr (PTuple (C # res)), inst')))"
proof -
  have pop1: "dict_pop kwargs ''context'' = Inr (C, filter (\<lambda>(k, _). k \<noteq> ''context'') kwargs)"
    using assms(1) by (simp add: dict_pop_def)
  have "map_of (filter (\<lambda>(k, _). k \<noteq> ''context'') kwargs) ''enable_this_node'' = Some flag"
    using assms(2) by (simp add: map_of_filter_other)
  then have pop2: "dict_pop (filter (\<lambda>(k, _). k \<noteq> ''context'') kwargs) ''enable_this_node''
                     = Inr (flag, remaining kwargs)"
    by (simp add: dict_pop_def remaining_def)
  have rd: "getattr_instance (stored inst C flag) ''context'' = Inr C"
    by (simp add: getattr_instance_def stored_def)
  show ?thesis
    unfolding ContextExecutionFuncWrapper_wrapper_def pop1
    by (simp add: pop2 Let_def rd [unfolded stored_def] stored_def)
qed

lemma wrapper_context_missing:
  assumes "map_of kwargs ''context'' = None"
  shows "ContextExecutionFuncWrapper_wrapper func inst args kwargs = (Inl (KeyError ''context''), inst)"
  using assms by (simp add: ContextExecutionFuncWrapper_wrapper_def dict_pop_def)

lemma wrapper_enable_missing:
  assumes "map_of kwargs ''context'' = Some C"
      and "map_of kwargs ''enable_this_node'' = None"
  shows "ContextExecutionFuncWrapper_wrapper func inst args kwargs =
           (Inl (KeyError ''enable_this_node''), inst(''context'' \<mapsto> C))"
proof -
  have "map_of (filter (\<lambda>(k, _). k \<noteq> ''context'') kwargs) ''enable_this_node'' = None"
    using assms(2) by (simp add: map_of_filter_other)
  then show ?thesis
    using assms(1) by (simp add: ContextExecutionFuncWrapper_wrapper_def dict_pop_def)
qed

subsection \<open>The wrapped execution method\<close>

text \<open>
  C1, as stated, fails in its last clause: the wrapper stores the flag on the instance
  before it calls the original method, and a method that reads the attribute returns a
  different tuple for each flag. Here the same call, with the flag true and with the
  flag false, gives two different results.
\<close>

theorem wrapper_flag_counterexample:
  "fst (ContextExecutionFuncWrapper_wrapper ReportEnabled_execute new_instance []
          [(''context'', PRemixContext (RemixContext ''10.0.0.5'' 8011)), (''enable_this_node'', PBool True)])
   \<noteq> fst (ContextExecutionFuncWrapper_wrapper ReportEnabled_execute new_instance []
          [(''context'', PRemixContext (RemixContext ''10.0.0.5'' 8011)), (''enable_this_node'', PBool False)])"
  by (simp add: ContextExecutionFuncWrapper_wrapper_def dict_pop_def getattr_instance_def
        ReportEnabled_execute_def new_instance_def)

text \<open>
  C1, amended: with a context \<open>C\<close> and a flag among the keyword arguments, when the
  original method, applied to the instance on which \<open>C\<close> and the flag are stored and to
  the remaining arguments, returns a tuple, the wrapped method returns \<open>C\<close> followed by
  exactly that tuple. The first element is \<open>C\<close> whatever the flag is, and a call with
  another flag has the same result whenever the original method returns the same tuple
  on the instance that holds the other flag.
\<close>

theorem wrapper_prepends_context:
  assumes "map_of kwargs ''context'' = Some C"
      and "map_of kwargs ''enable_this_node'' = Some flag"
      and "func (stored inst C flag) args (remaining kwargs) = (Inr (PTuple res), inst')"
  shows "ContextExecutionFuncWrapper_wrapper func inst args kwargs = (Inr (PTuple (C # res)), inst')
         \<and> (\<forall>kwargs' flag'.
               map_of kwargs' ''context'' = Some C
               \<and> map_of kwargs' ''enable_this_node'' = Some flag'
               \<and> remaining kwargs' = remaining kwargs
               \<and> fst (func (stored inst C flag') args (remaining kwargs)) = Inr (PTuple res)
               \<longrightarrow> fst (ContextExecutionFuncWrapper_wrapper func inst args kwargs')
                     = Inr (PTuple (C # res)))"
proof (intro conjI allI impI)
  show "ContextExecutionFuncWrapper_wrapper func inst args kwargs = (Inr (PTuple (C # res)), inst')"
    using assms by (simp add: wrapper_both_present)
next
  fix kwargs' flag'
  assume h: "map_of kwargs' ''context'' = Some C
               \<and> map_of kwargs' ''enable_this_node'' = Some flag'
               \<and> remaining kwargs' = remaining kwargs
               \<and> fst (func (stored inst C flag') args (remaining kwargs)) = Inr (PTuple res)"
  obtain r i where ri: "func (stored inst C flag') args (remaining kwargs) = (r, i)"
    by (cases "func (stored inst C flag') args (remaining kwargs)")
  with h have "r = Inr (PTuple res)" by simp
  with h ri show "fst (ContextExecutionFuncWrapper_wrapper func inst args kwargs')
                    = Inr (PTuple (C # res))"
    by (simp add: wrapper_both_present)
qed

text \<open>
  The amended C1 on \<open>StringConstant.get_string\<close>, which does not read the flag: both
  calls return the context followed by the string.
\<close>

theorem wrapper_prepends_context_witness:
  "ContextExecutionFuncWrapper_wrapper StringConstant_method new_instance []
      [(''string'', PStr ''hello''), (''context'', PRemixContext (RemixContext ''10.0.0.5'' 8011)),
       (''enable_this_node'', PBool True)]
     = (Inr (PTuple [PRemixContext (RemixContext ''10.0.0.5'' 8011), PStr ''hello'']),
        stored new_instance (PRemixContext (RemixContext ''10.0.0.5'' 8011)) (PBool True))
   \<and> fst (ContextExecutionFuncWrapper_wrapper StringConstant_method new_instance []
      [(''string'', PStr ''hello''), (''context'', PRemixContext (RemixContext ''10.0.0.5'' 8011)),
       (''enable_this_node'', PBool False)])
     = Inr (PTuple [PRemixContext (RemixContext ''10.0.0.5'' 8011), PStr ''hello''])"
proof -
  let ?C = "PRemixContext (RemixContext ''10.0.0.5'' 8011)"
  let ?kw = "[(''string'', PStr ''hello''), (''context'', ?C), (''enable_this_node'', PBool True)]"
  let ?kw' = "[(''string'', PStr ''hello''), (''context'', ?C), (''enable_this_node'', PBool False)]"
  have h1: "map_of ?kw ''context'' = Some ?C" by simp
  have h2: "map_of ?kw ''enable_this_node'' = Some (PBool True)" by simp
  have h3: "StringConstant_method (stored new_instance ?C (PBool True)) [] (remaining ?kw)
              = (Inr (PTuple [PStr ''hello'']), stored new_instance ?C (PBool True))"
    by (simp add: StringConstant_method_def StringConstant_get_string_def remaining_def)
  have g1: "map_of ?kw' ''context'' = Some ?C" by simp
  have g2: "map_of ?kw' ''enable_this_node'' = Some (PBool False)" by simp
  have g3: "remaining ?kw' = remaining ?kw" by (simp add: remaining_def)
  have g4: "fst (StringConstant_method (stored new_instance ?C (PBool False)) [] (remaining ?kw))
              = Inr (PTuple [PStr ''hello''])"
    by (simp add: StringConstant_method_def StringConstant_get_string_def remaining_def)
  note t = wrapper_prepends_context
    [where func = StringConstant_method and inst = new_instance and args = "[]", OF h1 h2 h3]
  from t have a: "ContextExecutionFuncWrapper_wrapper StringConstant_method new_instance [] ?kw
      = (Inr (PTuple [?C, PStr ''hello'']), stored new_instance ?C (PBool True))" by blast
  from t g1 g2 g3 g4
  have b: "fst (ContextExecutionFuncWrapper_wrapper StringConstant_method new_instance [] ?kw')
      = Inr (PTuple [?C, PStr ''hello''])" by blast
  from a b show ?thesis by blast
qed

text \<open>
  C9, as stated, fails: with both keys among the keyword arguments the call can still
  raise. Wrapped around \<open>StringConstant.get_string\<close> and called with the two keys and
  nothing else, the original method is called without its parameter and raises
  TypeError; wrapped around a method that returns \<^verbatim>\<open>None\<close>, the wrapper's own
  concatenation raises TypeError.
\<close>

theorem wrapper_fails_with_both_keys_counterexample:
  "map_of [(''context'', PRemixContext (RemixContext ''10.0.0.5'' 8011)),
           (''enable_this_node'', PBool True)] ''context'' \<noteq> None
   \<and> map_of [(''context'', PRemixContext (RemixContext ''10.0.0.5'' 8011)),
           (''enable_this_node'', PBool True)] ''enable_this_node'' \<noteq> None
   \<and> fst (ContextExecutionFuncWrapper_wrapper StringConstant_method new_instance []
          [(''context'', PRemixContext (RemixContext ''10.0.0.5'' 8011)),
           (''enable_this_node'', PBool True)]) = Inl TypeError
   \<and> fst (ContextExecutionFuncWrapper_wrapper ReturnsNothing_execute new_instance []
          [(''context'', PRemixContext (RemixContext ''10.0.0.5'' 8011)),
           (''enable_this_node'', PBool True)]) = Inl TypeError"
  by (simp add: ContextExecutionFuncWrapper_wrapper_def dict_pop_def getattr_instance_def
        StringConstant_method_def ReturnsNothing_execute_def new_instance_def)

text \<open>
  C9, amended: a call of the wrapped method fails exactly when the key \<open>"context"\<close> or
  the key \<open>"enable_this_node"\<close> is missing, or, with both keys there, the original
  method raises or returns something that is not a tuple. A missing key is the
  KeyError of that key; an exception of the original method leaves the wrapper
  unchanged; a result that is not a tuple is the TypeError of the concatenation; and
  with both keys and a returned tuple the call returns. Nothing catches any of the
  failures.
\<close>

theorem wrapper_failure_cases:
  "(map_of kwargs ''context'' = None \<longrightarrow>
      ContextExecutionFuncWrapper_wrapper func inst args kwargs = (Inl (KeyError ''context''), inst))
   \<and> (map_of kwargs ''context'' = Some C \<and> map_of kwargs ''enable_this_node'' = None \<longrightarrow>
      ContextExecutionFuncWrapper_wrapper func inst args kwargs
        = (Inl (KeyError ''enable_this_node''), inst(''context'' \<mapsto> C)))
   \<and> (map_of kwargs ''context'' = Some C \<and> map_of kwargs ''enable_this_node'' = Some flag
        \<and> func (stored inst C flag) args (remaining kwargs) = (Inl e, inst') \<longrightarrow>
      ContextExecutionFuncWrapper_wrapper func inst args kwargs = (Inl e, inst'))
   \<and> (map_of kwargs ''context'' = Some C \<and> map_of kwargs ''enable_this_node'' = Some flag
        \<and> func (stored inst C flag) args (remaining kwargs) = (Inr returned, inst')
        \<and> tuple_items returned = None \<longrightarrow>
      ContextExecutionFuncWrapper_wrapper func inst args kwargs = (Inl TypeError, inst'))
   \<and> (map_of kwargs ''context'' = Some C \<and> map_of kwargs ''enable_this_node'' = Some flag
        \<and> func (stored inst C flag) args (remaining kwargs) = (Inr returned, inst')
        \<and> tuple_items returned = Some res \<longrightarrow>
      ContextExecutionFuncWrapper_wrapper func inst args kwargs = (Inr (PTuple (C # res)), inst'))
   \<and> ((\<exists>err. fst (ContextExecutionFuncWrapper_wrapper func inst args kwargs) = Inl err)
        = (map_of kwargs ''context'' = None
           \<or> map_of kwargs ''enable_this_node'' = None
           \<or> (\<exists>c f. map_of kwargs ''context'' = Some c \<and> map_of kwargs ''enable_this_node'' = Some f
                \<and> ((\<exists>err. fst (func (stored inst c f) args (remaining kwargs)) = Inl err)
                    \<or> (\<exists>v. fst (func (stored inst c f) args (remaining kwargs)) = Inr v
                          \<and> tuple_items v = None)))))"
proof (intro conjI impI)
  assume "map_of kwargs ''context'' = None"
  then show "ContextExecutionFuncWrapper_wrapper func inst args kwargs = (Inl (KeyError ''context''), inst)"
    by (rule wrapper_context_missing)
next
  assume "map_of kwargs ''context'' = Some C \<and> map_of kwargs ''enable_this_node'' = None"
  then show "ContextExecutionFuncWrapper_wrapper func inst args kwargs
        = (Inl (KeyError ''enable_this_node''), inst(''context'' \<mapsto> C))"
    by (simp add: wrapper_enable_missing)
next
  assume "map_of kwargs ''context'' = Some C \<and> map_of kwargs ''enable_this_node'' = Some flag
        \<and> func (stored inst C flag) args (remaining kwargs) = (Inl e, inst')"
  then show "ContextExecutionFuncWrapper_wrapper func inst args kwargs = (Inl e, inst')"
    by (simp add: wrapper_both_present)
next
  assume "map_of kwargs ''context'' = Some C \<and> map_of kwargs ''enable_this_node'' = Some flag
        \<and> func (stored inst C flag) args (remaining kwargs) = (Inr returned, inst')
        \<and> tuple_items returned = None"
  then show "ContextExecutionFuncWrapper_wrapper func inst args kwargs = (Inl TypeError, inst')"
    by (simp add: wrapper_both_present)
next
  assume "map_of kwargs ''context'' = Some C \<and> map_of kwargs ''enable_this_node'' = Some flag
        \<and> func (stored inst C flag) args (remaining kwargs) = (Inr returned, inst')
        \<and> tuple_items returned = Some res"
  then show "ContextExecutionFuncWrapper_wrapper func inst args kwargs = (Inr (PTuple (C # res)), inst')"
    by (simp add: wrapper_both_present)
next
  show "(\<exists>err. fst (ContextExecutionFuncWrapper_wrapper func inst args kwargs) = Inl err)
        = (map_of kwargs ''context'' = None
           \<or> map_of kwargs ''enable_this_node'' = None
           \<or> (\<exists>c f. map_of kwargs ''context'' = Some c \<and> map_of kwargs ''enable_this_node'' = Some f
                \<and> ((\<exists>err. fst (func (stored inst c f) args (remaining kwargs)) = Inl err)
                    \<or> (\<exists>v. fst (func (stored inst c f) args (remaining kwargs)) = Inr v
                          \<and> tuple_items v = None))))"
  proof (cases "map_of kwargs ''context''")
    case None
    then show ?thesis by (simp add: wrapper_context_missing)
  next
    case ctx: (Some c)
    show ?thesis
    proof (cases "map_of kwargs ''enable_this_node''")
      case None
      with ctx show ?thesis by (simp add: wrapper_enable_missing)
    next
      case en: (Some f)
      obtain r i where ri: "func (stored inst c f) args (remaining kwargs) = (r, i)"
        by (cases "func (stored inst c f) args (remaining kwargs)")
      show ?thesis
      proof (cases r)
        case (Inl err)
        with ctx en ri show ?thesis by (simp add: wrapper_both_present)
      next
        case (Inr v)
        with ctx en ri show ?thesis
          by (cases "tuple_items v") (simp_all add: wrapper_both_present)
      qed
    qed
  qed
qed

text \<open>
  The amended C9 on \<open>StringConstant.get_string\<close> and on the method that returns
  \<^verbatim>\<open>None\<close>: no context, no flag, an original method that raises, one that returns no
  tuple, and the call that returns.
\<close>

theorem wrapper_failure_cases_witness:
  "ContextExecutionFuncWrapper_wrapper StringConstant_method new_instance []
      [(''string'', PStr ''hello'')]
     = (Inl (KeyError ''context''), new_instance)
   \<and> ContextExecutionFuncWrapper_wrapper StringConstant_method new_instance []
      [(''string'', PStr ''hello''), (''context'', PInt 7)]
     = (Inl (KeyError ''enable_this_node''), new_instance(''context'' \<mapsto> PInt 7))
   \<and> ContextExecutionFuncWrapper_wrapper StringConstant_method new_instance []
      [(''context'', PInt 7), (''enable_this_node'', PBool True)]
     = (Inl TypeError, stored new_instance (PInt 7) (PBool True))
   \<and> ContextExecutionFuncWrapper_wrapper ReturnsNothing_execute new_instance []
      [(''context'', PInt 7), (''enable_this_node'', PBool True)]
     = (Inl TypeError, stored new_instance (PInt 7) (PBool True))
   \<and> ContextExecutionFuncWrapper_wrapper StringConstant_method new_instance []
      [(''string'', PStr ''hello''), (''context'', PInt 7), (''enable_this_node'', PBool True)]
     = (Inr (PTuple [PInt 7, PStr ''hello'']), stored new_instance (PInt 7) (PBool True))
   \<and> \<not> (\<exists>err. fst (ContextExecutionFuncWrapper_wrapper StringConstant_method new_instance []
      [(''string'', PStr ''hello''), (''context'', PInt 7), (''enable_this_node'', PBool True)]) = Inl err)"
proof -
  let ?kw1 = "[(''string'', PStr ''hello'')]"
  let ?kw2 = "[(''string'', PStr ''hello''), (''context'', PInt 7)]"
  let ?kw3 = "[(''string'', PStr ''hello''), (''context'', PInt 7), (''enable_this_node'', PBool True)]"
  let ?kw4 = "[(''context'', PInt 7), (''enable_this_node'', PBool True)]"
  let ?st = "stored new_instance (PInt 7) (PBool True)"
  have m1: "map_of ?kw1 ''context'' = None" by simp
  have m2: "map_of ?kw2 ''context'' = Some (PInt 7) \<and> map_of ?kw2 ''enable_this_node'' = None" by simp
  have m3: "map_of ?kw3 ''context'' = Some (PInt 7) \<and> map_of ?kw3 ''enable_this_node'' = Some (PBool True)
            \<and> StringConstant_method ?st [] (remaining ?kw3) = (Inr (PTuple [PStr ''hello'']), ?st)
            \<and> tuple_items (PTuple [PStr ''hello'']) = Some [PStr ''hello'']"
    by (simp add: StringConstant_method_def StringConstant_get_string_def remaining_def)
  have m4: "map_of ?kw4 ''context'' = Some (PInt 7) \<and> map_of ?kw4 ''enable_this_node'' = Some (PBool True)
            \<and> StringConstant_method ?st [] (remaining ?kw4) = (Inl TypeError, ?st)"
    by (simp add: StringConstant_method_def remaining_def)
  have m5: "map_of ?kw4 ''context'' = Some (PInt 7) \<and> map_of ?kw4 ''enable_this_node'' = Some (PBool True)
            \<and> ReturnsNothing_execute ?st [] (remaining ?kw4) = (Inr PNone, ?st)
            \<and> tuple_items PNone = None"
    by (simp add: ReturnsNothing_execute_def)
  have m6: "\<not> (map_of ?kw3 ''context'' = None
           \<or> map_of ?kw3 ''enable_this_node'' = None
           \<or> (\<exists>c f. map_of ?kw3 ''context'' = Some c \<and> map_of ?kw3 ''enable_this_node'' = Some f
                \<and> ((\<exists>err. fst (StringConstant_method (stored new_instance c f) [] (remaining ?kw3)) = Inl err)
                    \<or> (\<exists>v. fst (StringConstant_method (stored new_instance c f) [] (remaining ?kw3)) = Inr v
                          \<and> tuple_items v = None))))"
    by (simp add: StringConstant_method_def StringConstant_get_string_def remaining_def)
  have a: "ContextExecutionFuncWrapper_wrapper StringConstant_method new_instance [] ?kw1
             = (Inl (KeyError ''context''), new_instance)"
    using wrapper_failure_cases
      [where func = StringConstant_method and inst = new_instance and args = "[]" and kwargs = ?kw1]
      m1 by blast
  have b: "ContextExecutionFuncWrapper_wrapper StringConstant_method new_instance [] ?kw2
             = (Inl (KeyError ''enable_this_node''), new_instance(''context'' \<mapsto> PInt 7))"
    using wrapper_failure_cases
      [where func = StringConstant_method and inst = new_instance and args = "[]" and kwargs = ?kw2
         and C = "PInt 7"]
      m2 by blast
  have c: "ContextExecutionFuncWrapper_wrapper StringConstant_method new_instance [] ?kw4
             = (Inl TypeError, ?st)"
    using wrapper_failure_cases
      [where func = StringConstant_method and inst = new_instance and args = "[]" and kwargs = ?kw4
         and C = "PInt 7" and flag = "PBool True" and e = TypeError and inst' = ?st]
      m4 by blast
  have d: "ContextExecutionFuncWrapper_wrapper ReturnsNothing_execute new_instance [] ?kw4
             = (Inl TypeError, ?st)"
    using wrapper_failure_cases
      [where func = ReturnsNothing_execute and inst = new_instance and args = "[]" and kwargs = ?kw4
         and C = "PInt 7" and flag = "PBool True" and returned = PNone and inst' = ?st]
      m5 by blast
  have e: "ContextExecutionFuncWrapper_wrapper StringConstant_method new_instance [] ?kw3
             = (Inr (PTuple [PInt 7, PStr ''hello'']), ?st)"
    using wrapper_failure_cases
      [where func = StringConstant_method and inst = new_instance and args = "[]" and kwargs = ?kw3
         and C = "PInt 7" and flag = "PBool True" and returned = "PTuple [PStr ''hello'']"
         and res = "[PStr ''hello'']" and inst' = ?st]
      m3 by blast
  have f: "\<not> (\<exists>err. fst (ContextExecutionFuncWrapper_wrapper StringConstant_method new_instance [] ?kw3) = Inl err)"
    using wrapper_failure_cases
      [where func = StringConstant_method and inst = new_instance and args = "[]" and kwargs = ?kw3]
      m6 by blast
  from a b c d e f show ?thesis by blast
qed

subsection \<open>The class decorator\<close>

lemma merge_dict_required_left:
  assumes "d1 ''required'' = Some e1" and "e1 name \<noteq> None"
  shows "\<exists>e. merge_dict d1 d2 ''required'' = Some e \<and> e name \<noteq> None"
  using assms by (auto simp: merge_dict_def map_add_def split: option.splits)

lemma merge_dict_keeps_right:
  assumes "d2 section = Some e2" and "e2 name \<noteq> None"
  shows "\<exists>e. merge_dict d1 d2 section = Some e \<and> e name \<noteq> None"
  using assms by (auto simp: merge_dict_def map_add_def split: option.splits)

text \<open>
  C2: on a node class that has an input schema and a named execution method, the
  decorator \<open>add_context_input_enabled_and_output\<close> yields a class whose schema has, in
  its required section, an entry \<open>"context"\<close> and an entry \<open>"enable_this_node"\<close>
  besides every input the class declared, whose \<open>RETURN_TYPES\<close> are the context type
  followed by the original ones, and whose \<open>RETURN_NAMES\<close> are \<open>"context"\<close> followed by
  the original ones; the execution method is the wrapped one.
\<close>

theorem decorator_adds_context:
  assumes "INPUT_TYPES cls = Some schema"
      and "FUNCTION cls = Some function_name"
      and "methods cls function_name = Some func"
  shows "\<exists>cls' schema' required'.
           add_context_input_enabled_and_output CONTEXT_TYPE cls = Inr cls'
         \<and> RETURN_TYPES cls' = Some (PStr CONTEXT_TYPE # getattr_default (RETURN_TYPES cls))
         \<and> RETURN_NAMES cls' = Some (''context'' # getattr_default (RETURN_NAMES cls))
         \<and> INPUT_TYPES cls' = Some schema'
         \<and> schema' ''required'' = Some required'
         \<and> required' ''context'' \<noteq> None
         \<and> required' ''enable_this_node'' \<noteq> None
         \<and> (\<forall>section entries name. schema section = Some entries \<and> entries name \<noteq> None \<longrightarrow>
               (\<exists>entries'. schema' section = Some entries' \<and> entries' name \<noteq> None))
         \<and> methods cls' function_name = Some (ContextExecutionFuncWrapper_wrapper func)"
proof -
  let ?s1 = "wrap_input_types_with schema (get_context_inputs CONTEXT_TYPE)"
  let ?s2 = "wrap_input_types_with ?s1 get_enabled_inputs"
  let ?c1 = "add_context_outputs CONTEXT_TYPE cls"
  let ?cls' = "?c1\<lparr>INPUT_TYPES := Some ?s2,
                  methods := (methods ?c1)(function_name \<mapsto> ContextExecutionFuncWrapper_wrapper func)\<rparr>"
  have c1: "INPUT_TYPES ?c1 = Some schema" "FUNCTION ?c1 = Some function_name"
           "methods ?c1 = methods cls"
           "RETURN_TYPES ?c1 = Some (PStr CONTEXT_TYPE # getattr_default (RETURN_TYPES cls))"
           "RETURN_NAMES ?c1 = Some (''context'' # getattr_default (RETURN_NAMES cls))"
    using assms by (simp_all add: add_context_outputs_def Let_def split: option.splits)
  have run: "add_context_input_enabled_and_output CONTEXT_TYPE cls = Inr ?cls'"
    using assms c1 by (simp add: add_context_input_enabled_and_output_def Let_def)
  have ctx: "\<exists>e. ?s1 ''required'' = Some e \<and> e ''context'' \<noteq> None"
    unfolding wrap_input_types_with_def
    by (rule merge_dict_required_left [where ?e1.0 = "[''context'' \<mapsto> (PStr CONTEXT_TYPE, [(''forceInput'', PBool True)])]"])
       (simp_all add: get_context_inputs_def)
  then obtain e1 where e1: "?s1 ''required'' = Some e1" "e1 ''context'' \<noteq> None" by blast
  have ctx2: "\<exists>e. ?s2 ''required'' = Some e \<and> e ''context'' \<noteq> None"
    unfolding wrap_input_types_with_def
    using e1 [unfolded wrap_input_types_with_def] by (rule merge_dict_keeps_right)
  have en: "\<exists>e. ?s2 ''required'' = Some e \<and> e ''enable_this_node'' \<noteq> None"
    unfolding wrap_input_types_with_def
    by (rule merge_dict_required_left [where ?e1.0 = "[''enable_this_node'' \<mapsto> (PStr ''BOOLEAN'', [(''default'', PBool True)])]"])
       (simp_all add: get_enabled_inputs_def)
  from ctx2 en obtain required' where req:
    "?s2 ''required'' = Some required'" "required' ''context'' \<noteq> None"
    "required' ''enable_this_node'' \<noteq> None"
    by auto
  have keep: "\<forall>section entries name. schema section = Some entries \<and> entries name \<noteq> None \<longrightarrow>
               (\<exists>entries'. ?s2 section = Some entries' \<and> entries' name \<noteq> None)"
  proof (intro allI impI)
    fix sec entries name
    assume h: "schema sec = Some entries \<and> entries name \<noteq> None"
    then have "\<exists>e. ?s1 sec = Some e \<and> e name \<noteq> None"
      unfolding wrap_input_types_with_def by (intro merge_dict_keeps_right) auto
    then obtain e where "?s1 sec = Some e" "e name \<noteq> None" by blast
    then show "\<exists>entries'. ?s2 sec = Some entries' \<and> entries' name \<noteq> None"
      unfolding wrap_input_types_with_def by (intro merge_dict_keeps_right) auto
  qed
  have fields: "RETURN_TYPES ?cls' = Some (PStr CONTEXT_TYPE # getattr_default (RETURN_TYPES cls))"
    "RETURN_NAMES ?cls' = Some (''context'' # getattr_default (RETURN_NAMES cls))"
    "INPUT_TYPES ?cls' = Some ?s2"
    "methods ?cls' function_name = Some (ContextExecutionFuncWrapper_wrapper func)"
    using c1 by simp_all
  from run fields req keep show ?thesis by blast
qed

text \<open>C2 on the class \<open>StringConstant\<close>.\<close>

theorem decorator_adds_context_witness:
  "\<exists>cls' schema' required'.
      add_context_input_enabled_and_output ''CONTEXT'' StringConstant_class = Inr cls'
    \<and> RETURN_TYPES cls' = Some [PStr ''CONTEXT'', PStr ''STRING'']
    \<and> RETURN_NAMES cls' = Some [''context'']
    \<and> INPUT_TYPES cls' = Some schema'
    \<and> schema' ''required'' = Some required'
    \<and> required' ''context'' \<noteq> None
    \<and> required' ''enable_this_node'' \<noteq> None
    \<and> required' ''string'' \<noteq> None
    \<and> methods cls' ''get_string'' = Some (ContextExecutionFuncWrapper_wrapper StringConstant_method)"
proof -
  let ?entries = "[''string'' \<mapsto> (PStr ''STRING'', [(''default'', PStr []), (''multiline'', PBool True)])]"
  let ?schema = "[''required'' \<mapsto> ?entries]"
  have h1: "INPUT_TYPES StringConstant_class = Some ?schema"
    by (simp add: StringConstant_class_def)
  have h2: "FUNCTION StringConstant_class = Some ''get_string''"
    by (simp add: StringConstant_class_def)
  have h3: "methods StringConstant_class ''get_string'' = Some StringConstant_method"
    by (simp add: StringConstant_class_def)
  have h4: "?schema ''required'' = Some ?entries \<and> ?entries ''string'' \<noteq> None" by simp
  have r: "getattr_default (RETURN_TYPES StringConstant_class) = [PStr ''STRING'']"
          "getattr_default (RETURN_NAMES StringConstant_class) = []"
    by (simp_all add: StringConstant_class_def getattr_default_def)
  from decorator_adds_context [OF h1 h2 h3, of "''CONTEXT''"]
  obtain cls' schema' required' where t:
    "add_context_input_enabled_and_output ''CONTEXT'' StringConstant_class = Inr cls'"
    "RETURN_TYPES cls' = Some (PStr ''CONTEXT'' # getattr_default (RETURN_TYPES StringConstant_class))"
    "RETURN_NAMES cls' = Some (''context'' # getattr_default (RETURN_NAMES StringConstant_class))"
    "INPUT_TYPES cls' = Some schema'"
    "schema' ''required'' = Some required'"
    "required' ''context'' \<noteq> None"
    "required' ''enable_this_node'' \<noteq> None"
    "\<forall>section entries name. ?schema section = Some entries \<and> entries name \<noteq> None \<longrightarrow>
               (\<exists>entries'. schema' section = Some entries' \<and> entries' name \<noteq> None)"
    "methods cls' ''get_string'' = Some (ContextExecutionFuncWrapper_wrapper StringConstant_method)"
    by blast
  from t(8) h4 obtain entries' where "schema' ''required'' = Some entries'" "entries' ''string'' \<noteq> None"
    by blast
  with t(5) have "required' ''string'' \<noteq> None" by simp
  with t r show ?thesis by auto
qed

end
